theory Spec2Isabelle
  imports Main
begin

section \<open>JavaScript strings, as far as the models use them\<close>

text \<open>
  A string is a list of characters. The development covers ASCII text: the character
  classes below are the ASCII members of JavaScript's \<^verbatim>\<open>\d\<close>, \<^verbatim>\<open>\w\<close> and \<^verbatim>\<open>\s\<close>
  (without the \<^verbatim>\<open>u\<close> flag the first two are ASCII only; \<^verbatim>\<open>\s\<close> and \<^verbatim>\<open>trim\<close> also
  know a few code points above U+007F, which are outside this model), and
  \<^verbatim>\<open>toLowerCase\<close> maps \<^verbatim>\<open>A-Z\<close> to \<^verbatim>\<open>a-z\<close>.
\<close>

definition is_digit :: "char \<Rightarrow> bool" where
  "is_digit c = (c \<in> set ''0123456789'')"

definition is_lower :: "char \<Rightarrow> bool" where
  "is_lower c = (c \<in> set ''abcdefghijklmnopqrstuvwxyz'')"

definition is_upper :: "char \<Rightarrow> bool" where
  "is_upper c = (c \<in> set ''ABCDEFGHIJKLMNOPQRSTUVWXYZ'')"

definition is_hyphen :: "char \<Rightarrow> bool" where
  "is_hyphen c = (c = CHR ''-'')"

text \<open>\<^verbatim>\<open>\w\<close> is \<^verbatim>\<open>[A-Za-z0-9_]\<close>.\<close>

definition is_word :: "char \<Rightarrow> bool" where
  "is_word c = (is_lower c \<or> is_upper c \<or> is_digit c \<or> c = CHR ''_'')"

text \<open>\<^verbatim>\<open>\s\<close>: space, tab, line feed, vertical tab, form feed, carriage return.\<close>

definition is_space :: "char \<Rightarrow> bool" where
  "is_space c = (c \<in> set [CHR '' '', CHR 0x09, CHR 0x0A, CHR 0x0B, CHR 0x0C, CHR 0x0D])"

definition lower_char :: "char \<Rightarrow> char" where
  "lower_char c =
     (case map_of (zip ''ABCDEFGHIJKLMNOPQRSTUVWXYZ'' ''abcdefghijklmnopqrstuvwxyz'') c of
        Some d \<Rightarrow> d
      | None \<Rightarrow> c)"

definition toLowerCase :: "string \<Rightarrow> string" where
  "toLowerCase s = map lower_char s"

definition trim :: "string \<Rightarrow> string" where
  "trim s = rev (dropWhile is_space (rev (dropWhile is_space s)))"

text \<open>
  \<^verbatim>\<open>s.replace(/[^...]/g, '')\<close> with a negated class keeps exactly the characters of
  the class.
\<close>

definition remove_outside :: "(char \<Rightarrow> bool) \<Rightarrow> string \<Rightarrow> string" where
  "remove_outside keep s = filter keep s"

text \<open>
  \<^verbatim>\<open>s.replace(/X+/g, '-')\<close>: scanning from the left, every maximal run of characters
  of class \<^verbatim>\<open>X\<close> becomes one hyphen.
\<close>

function replace_runs :: "(char \<Rightarrow> bool) \<Rightarrow> string \<Rightarrow> string" where
  "replace_runs X [] = []"
| "replace_runs X (c # cs) =
     (if X c then CHR ''-'' # replace_runs X (dropWhile X cs) else c # replace_runs X cs)"
  by pat_completeness auto
termination
  by (relation "measure (\<lambda>(X, s). length s)")
     (auto simp: length_dropWhile_le less_Suc_eq_le)

text \<open>Decimal digits: \<^verbatim>\<open>parseInt(s, 10)\<close> on a string of digits, and \<^verbatim>\<open>n.toString()\<close>.\<close>

definition digit_val :: "char \<Rightarrow> nat" where
  "digit_val c = length (takeWhile (\<lambda>d. d \<noteq> c) ''0123456789'')"

definition parseInt :: "string \<Rightarrow> nat" where
  "parseInt s = foldl (\<lambda>n c. 10 * n + digit_val c) 0 s"

definition digit_char :: "nat \<Rightarrow> char" where
  "digit_char n = ''0123456789'' ! n"

fun toString :: "nat \<Rightarrow> string" where
  "toString n =
     (if n < 10 then [digit_char n]
      else toString (n div 10) @ [digit_char (n mod 10)])"

definition padStart :: "nat \<Rightarrow> char \<Rightarrow> string \<Rightarrow> string" where
  "padStart n c s = replicate (n - length s) c @ s"

section \<open>The regular expressions of the source\<close>

text \<open>
  \<^verbatim>\<open>re.test(s)\<close> for an expression anchored with \<^verbatim>\<open>^\<close> and \<^verbatim>\<open>$\<close> asks whether the whole
  string matches. An expression that is a fixed sequence of character classes is a list
  of predicates, matched position by position.
\<close>

definition test_classes :: "(char \<Rightarrow> bool) list \<Rightarrow> string \<Rightarrow> bool" where
  "test_classes classes s = list_all2 (\<lambda>cl c. cl c) classes s"

text \<open>\<^verbatim>\<open>/^\d{4}-\d{2}-\d{2}$/\<close>\<close>

definition dateRegex :: "(char \<Rightarrow> bool) list" where
  "dateRegex =
     replicate 4 is_digit @ [is_hyphen] @ replicate 2 is_digit @ [is_hyphen] @ replicate 2 is_digit"

text \<open>\<^verbatim>\<open>/^([01]\d|2[0-3]):([0-5]\d)$/\<close>\<close>

definition timeRegex_test :: "string \<Rightarrow> bool" where
  "timeRegex_test s =
     (case s of
        [h1, h2, c, m1, m2] \<Rightarrow>
          ((h1 \<in> set ''01'' \<and> is_digit h2) \<or> (h1 = CHR ''2'' \<and> h2 \<in> set ''0123''))
          \<and> c = CHR '':'' \<and> m1 \<in> set ''012345'' \<and> is_digit m2
      | _ \<Rightarrow> False)"

text \<open>
  \<^verbatim>\<open>s.match(/^(\d{1,2}):(\d{2})$/)\<close>: the two captured groups, or \<^verbatim>\<open>None\<close> for
  \<^verbatim>\<open>null\<close>.
\<close>

definition timeParts_match :: "string \<Rightarrow> (string \<times> string) option" where
  "timeParts_match s =
     (case s of
        [h, c, m1, m2] \<Rightarrow>
          if is_digit h \<and> c = CHR '':'' \<and> is_digit m1 \<and> is_digit m2
          then Some ([h], [m1, m2]) else None
      | [h1, h2, c, m1, m2] \<Rightarrow>
          if is_digit h1 \<and> is_digit h2 \<and> c = CHR '':'' \<and> is_digit m1 \<and> is_digit m2
          then Some ([h1, h2], [m1, m2]) else None
      | _ \<Rightarrow> None)"

text \<open>
  \<^verbatim>\<open>/^[a-z0-9]+(?:-[a-z0-9]+)*$/\<close> (\<^verbatim>\<open>isValidSlug\<close> of the lookup route): a non-empty
  run of \<^verbatim>\<open>[a-z0-9]\<close>, then any number of groups of one hyphen and a non-empty run.
  \<open>slug_rest\<close> reads the string after the first character of a run.
\<close>

definition is_slug_char :: "char \<Rightarrow> bool" where
  "is_slug_char c = (is_lower c \<or> is_digit c)"

fun slug_rest :: "string \<Rightarrow> bool" where
  "slug_rest [] = True"
| "slug_rest (c # cs) =
     (if is_slug_char c then slug_rest cs
      else if c = CHR ''-'' then (case cs of [] \<Rightarrow> False | d # ds \<Rightarrow> is_slug_char d \<and> slug_rest ds)
      else False)"

definition isValidSlug :: "string \<Rightarrow> bool" where
  "isValidSlug s = (case s of [] \<Rightarrow> False | c # cs \<Rightarrow> is_slug_char c \<and> slug_rest cs)"

text \<open>
  \<^verbatim>\<open>/^[^\s@]+@[^\s@]+\.[^\s@]+$/\<close> (the validator of a Booking's \<^verbatim>\<open>email\<close>). The first
  run of \<^verbatim>\<open>[^\s@]\<close> is the longest one, since the character after it has to be the
  \<^verbatim>\<open>@\<close>; what follows the \<^verbatim>\<open>@\<close> is of that class throughout and has a dot that is
  neither its first nor its last character.
\<close>

definition email_char :: "char \<Rightarrow> bool" where
  "email_char c = (\<not> is_space c \<and> c \<noteq> CHR ''@'')"

definition emailRegex_test :: "string \<Rightarrow> bool" where
  "emailRegex_test s =
     (takeWhile email_char s \<noteq> [] \<and>
      (case dropWhile email_char s of
         [] \<Rightarrow> False
       | c # domain \<Rightarrow>
           c = CHR ''@'' \<and> list_all email_char domain
           \<and> CHR ''.'' \<in> set (tl (butlast domain))))"

section \<open>Dates: the part of the built-in \<^verbatim>\<open>Date\<close> the Event hook uses\<close>

text \<open>
  \<^verbatim>\<open>new Date(s)\<close> for a string that is not in the ISO format is parsed as the engine
  sees fit, so the parser is a parameter \<open>Date_parse\<close> of the hook: the time value
  (milliseconds since 1970-01-01T00:00:00Z) of the parsed date, or \<open>None\<close> for an
  Invalid Date (\<^verbatim>\<open>isNaN(parsedDate.getTime())\<close>).

  \<^verbatim>\<open>toISOString\<close> is fixed by the language: the UTC calendar date and time of the time
  value, the year with four digits when it lies in 0..9999 and with a sign and six
  digits otherwise.
\<close>

text \<open>
  The year, month and day of the proleptic Gregorian calendar for a day number (days
  since 1970-01-01), computed in eras of 400 years that start on a 1 March.
\<close>

definition civil_from_days :: "int \<Rightarrow> int \<times> int \<times> int" where
  "civil_from_days z0 =
     (let z = z0 + 719468;
          era = z div 146097;
          doe = z - era * 146097;
          yoe = (doe - doe div 1460 + doe div 36524 - doe div 146096) div 365;
          doy = doe - (365 * yoe + yoe div 4 - yoe div 100);
          mp = (5 * doy + 2) div 153;
          d = doy - (153 * mp + 2) div 5 + 1;
          m = (if mp < 10 then mp + 3 else mp - 9);
          y = yoe + era * 400 + (if m \<le> 2 then 1 else 0)
      in (y, m, d))"

definition pad :: "nat \<Rightarrow> int \<Rightarrow> string" where
  "pad n i = padStart n (CHR ''0'') (toString (nat i))"

definition year_string :: "int \<Rightarrow> string" where
  "year_string y =
     (if 0 \<le> y \<and> y \<le> 9999 then pad 4 y
      else (if y < 0 then CHR ''-'' else CHR ''+'') # pad 6 (abs y))"

definition toISOString :: "int \<Rightarrow> string" where
  "toISOString t =
     (let ms = t mod 86400000 in
      case civil_from_days (t div 86400000) of
        (y, m, d) \<Rightarrow>
          year_string y @ ''-'' @ pad 2 m @ ''-'' @ pad 2 d @ ''T''
          @ pad 2 (ms div 3600000) @ '':'' @ pad 2 (ms div 60000 mod 60) @ '':''
          @ pad 2 (ms div 1000 mod 60) @ ''.'' @ pad 3 (ms mod 1000) @ ''Z'')"

text \<open>\<^verbatim>\<open>s.split('T')[0]\<close>: the part of the string before its first \<^verbatim>\<open>T\<close>.\<close>

definition split_T_first :: "string \<Rightarrow> string" where
  "split_T_first s = takeWhile (\<lambda>c. c \<noteq> CHR ''T'') s"

section \<open>Errors, documents and the document store\<close>

text \<open>
  The errors of the source, under the names of the specification's taxonomy:
  \<^item> \<open>InvalidDate\<close>: \<^verbatim>\<open>new Error('Invalid date format. Expected ISO format (YYYY-MM-DD)')\<close>;
  \<^item> \<open>InvalidTimeFormat\<close>: \<^verbatim>\<open>new Error('Invalid time format. Expected HH:MM (24-hour format)')\<close>;
  \<^item> \<open>InvalidTimeRange\<close>: \<^verbatim>\<open>new Error('Invalid time. Hours must be 0-23 and minutes 0-59')\<close>;
  \<^item> \<open>DanglingReference i\<close>: \<^verbatim>\<open>new Error(`Event with ID ${this.eventId} does not exist`)\<close>;
  \<^item> \<open>EmailRequired\<close>: the validation error with \<^verbatim>\<open>'Email is required'\<close>;
  \<^item> \<open>InvalidEmail\<close>: the validation error with
    \<^verbatim>\<open>'Please provide a valid email address'\<close>;
  \<^item> \<open>MissingUri\<close>: the error \<^verbatim>\<open>connectDB\<close> throws when \<^verbatim>\<open>MONGODB_URI\<close> is not set;
  \<^item> \<open>DuplicateKey\<close>: the store refusing a write that breaks a unique index;
  \<^item> \<open>DocumentNotFound\<close>: saving a document that is not new and is not in the store;
  \<^item> \<open>DependencyFailure\<close>: any error of the driver when the store cannot be reached.
  Both time errors are the specification's \<open>InvalidTime\<close>.
\<close>

datatype error =
    InvalidDate
  | InvalidTimeFormat
  | InvalidTimeRange
  | DanglingReference nat
  | EmailRequired
  | InvalidEmail
  | MissingUri
  | DuplicateKey
  | DocumentNotFound
  | DependencyFailure

definition is_InvalidTime :: "error \<Rightarrow> bool" where
  "is_InvalidTime e = (e = InvalidTimeFormat \<or> e = InvalidTimeRange)"

text \<open>
  An Event document (\<^verbatim>\<open>IEvent\<close>), with the fields the hook reads or writes; the other
  required text fields, \<^verbatim>\<open>mode\<close>, \<^verbatim>\<open>agenda\<close> and \<^verbatim>\<open>tags\<close> take no part in it.
  \<open>oid\<close> is the document's \<^verbatim>\<open>_id\<close>, \<open>isNew\<close> and \<open>modifiedPaths\<close> are Mongoose's
  bookkeeping behind \<^verbatim>\<open>this.isModified(path)\<close>.
\<close>

record event_doc =
  oid :: nat
  isNew :: bool
  modifiedPaths :: "string list"
  title :: string
  slug :: string
  date :: string
  time :: string

text \<open>
  A Booking document (\<^verbatim>\<open>IBooking\<close>) that has an \<^verbatim>\<open>eventId\<close>. \<open>email\<close> is the string
  the document holds, that is, what the setters of the path (\<^verbatim>\<open>lowercase: true\<close>,
  \<^verbatim>\<open>trim: true\<close>) made of the string it was given; a document that was given no email
  holds the empty string here.
\<close>

record booking_doc =
  b_oid :: nat
  b_isNew :: bool
  b_modifiedPaths :: "string list"
  eventId :: nat
  email :: string

definition isModified :: "string list \<Rightarrow> string \<Rightarrow> bool" where
  "isModified paths p = (p \<in> set paths)"

text \<open>
  The process and its database. \<open>cached_conn\<close> is \<^verbatim>\<open>cached.conn\<close> of
  \<^verbatim>\<open>lib/mongodb.ts\<close> (between two calls \<^verbatim>\<open>cached.promise\<close> is set exactly when it is);
  \<open>store_up\<close> says whether the database server answers; \<open>calls\<close> records every
  connection attempt and every operation sent to the store, newest last.
\<close>

datatype db_call =
    Connect
  | FindOne string
  | Exists nat
  | WriteEvent nat
  | WriteBooking nat

record world =
  MONGODB_URI :: "string option"
  cached_conn :: bool
  store_up :: bool
  calls :: "db_call list"
  events :: "event_doc list"
  bookings :: "booking_doc list"

definition called :: "db_call \<Rightarrow> world \<Rightarrow> world" where
  "called c w = w\<lparr>calls := calls w @ [c]\<rparr>"

text \<open>
  The connection is opened with \<^verbatim>\<open>bufferCommands: false\<close>: an operation on a model
  fails unless the process is connected and the server answers.
\<close>

definition db_ready :: "world \<Rightarrow> bool" where
  "db_ready w = (cached_conn w \<and> store_up w)"

section \<open>The Event model: the pre-save hook\<close>

text \<open>
  The slug of a title:
  \<^verbatim>\<open>title.toLowerCase().replace(/[^\w\s-]/g, '').replace(/\s+/g, '-').replace(/-+/g, '-').trim()\<close>.
\<close>

definition slugify :: "string \<Rightarrow> string" where
  "slugify t =
     trim (replace_runs is_hyphen (replace_runs is_space
       (remove_outside (\<lambda>c. is_word c \<or> is_space c \<or> is_hyphen c) (toLowerCase t))))"

text \<open>
  The three blocks of \<^verbatim>\<open>EventSchema.pre('save', async function () {...})\<close>, each on the
  document \<^verbatim>\<open>this\<close>. A block that executes \<^verbatim>\<open>return new Error(...)\<close> yields \<open>Inl\<close> of
  that error: the value the function returns there.

  The assignment to \<^verbatim>\<open>this.slug\<close> passes through the setters of the path
  (\<^verbatim>\<open>lowercase: true\<close>, \<^verbatim>\<open>trim: true\<close>); they change no derived slug
  (\<open>slug_setters_identity\<close> below) and are left out of \<open>slug_step\<close>.
\<close>

definition slug_step :: "event_doc \<Rightarrow> event_doc" where
  "slug_step this =
     (if isModified (modifiedPaths this) ''title''
      then this\<lparr>slug := slugify (title this)\<rparr>
      else this)"

definition date_step :: "(string \<Rightarrow> int option) \<Rightarrow> event_doc \<Rightarrow> error + event_doc" where
  "date_step Date_parse this =
     (if isModified (modifiedPaths this) ''date'' then
        if \<not> test_classes dateRegex (date this) then
          (case Date_parse (date this) of
             None \<Rightarrow> Inl InvalidDate
           | Some parsedDate \<Rightarrow> Inr (this\<lparr>date := split_T_first (toISOString parsedDate)\<rparr>))
        else Inr this
      else Inr this)"

definition time_step :: "event_doc \<Rightarrow> error + event_doc" where
  "time_step this =
     (if isModified (modifiedPaths this) ''time'' then
        if \<not> timeRegex_test (time this) then
          (case timeParts_match (time this) of
             None \<Rightarrow> Inl InvalidTimeFormat
           | Some (hs, ms) \<Rightarrow>
               (let hours = parseInt hs; minutes = parseInt ms in
                if hours > 23 \<or> minutes > 59 then Inl InvalidTimeRange
                else Inr (this\<lparr>time :=
                       padStart 2 (CHR ''0'') (toString hours) @ '':''
                       @ padStart 2 (CHR ''0'') (toString minutes)\<rparr>)))
        else Inr this
      else Inr this)"

text \<open>
  How a hook ends, as Mongoose's middleware chain sees it. An \<^verbatim>\<open>async\<close> function gives
  a promise: fulfilled with the value the body returns, rejected with what it throws.
  The chain stops a save on a rejected promise, or on an error handed to \<^verbatim>\<open>next\<close>;
  the value of a fulfilled promise is dropped, an \<^verbatim>\<open>Error\<close> object like any other.
\<close>

datatype 'a promise = Fulfilled 'a | Rejected error

definition hook_failure :: "'a promise \<Rightarrow> error option" where
  "hook_failure p = (case p of Fulfilled v \<Rightarrow> None | Rejected e \<Rightarrow> Some e)"

text \<open>
  The hook: the promise it gives and the document as it leaves it. The body has no
  \<^verbatim>\<open>throw\<close> and takes no \<^verbatim>\<open>next\<close>; it returns an \<^verbatim>\<open>Error\<close> object from the date block
  or from the time block, or runs to its end (\<open>None\<close> for \<^verbatim>\<open>undefined\<close>).
\<close>

definition EventSchema_pre_save ::
  "(string \<Rightarrow> int option) \<Rightarrow> event_doc \<Rightarrow> error option promise \<times> event_doc" where
  "EventSchema_pre_save Date_parse this =
     (let this1 = slug_step this in
      case date_step Date_parse this1 of
        Inl e \<Rightarrow> (Fulfilled (Some e), this1)
      | Inr this2 \<Rightarrow>
          (case time_step this2 of
             Inl e \<Rightarrow> (Fulfilled (Some e), this2)
           | Inr this3 \<Rightarrow> (Fulfilled None, this3)))"

section \<open>The store and \<^verbatim>\<open>save\<close>\<close>

text \<open>
  What the collection keeps of a saved document: the document, no longer new and with
  no modified path.
\<close>

definition stored :: "event_doc \<Rightarrow> event_doc" where
  "stored d = d\<lparr>isNew := False, modifiedPaths := []\<rparr>"

text \<open>
  Writing an Event to the \<^verbatim>\<open>events\<close> collection, under its indexes: \<^verbatim>\<open>_id\<close> is unique,
  and so is \<^verbatim>\<open>slug\<close> (\<^verbatim>\<open>unique: true\<close> on the path and
  \<^verbatim>\<open>EventSchema.index({ slug: 1 }, { unique: true })\<close>). A new document is inserted, one
  that is not new replaces the stored document of its \<^verbatim>\<open>_id\<close>.
\<close>

definition write_event :: "world \<Rightarrow> event_doc \<Rightarrow> (error + event_doc) \<times> world" where
  "write_event w0 d =
     (let w = called (WriteEvent (oid d)) w0 in
      if \<not> db_ready w then (Inl DependencyFailure, w)
      else if isNew d then
        (if oid d \<in> set (map oid (events w)) \<or> slug d \<in> set (map slug (events w))
         then (Inl DuplicateKey, w)
         else (Inr (stored d), w\<lparr>events := events w @ [stored d]\<rparr>))
      else
        (if oid d \<notin> set (map oid (events w)) then (Inl DocumentNotFound, w)
         else if slug d \<in> set (map slug (filter (\<lambda>e. oid e \<noteq> oid d) (events w)))
         then (Inl DuplicateKey, w)
         else (Inr (stored d),
               w\<lparr>events := map (\<lambda>e. if oid e = oid d then stored d else e) (events w)\<rparr>)))"

text \<open>
  \<^verbatim>\<open>doc.save()\<close> on an Event that has passed the validators of the schema's paths: the
  hook, then the write unless the hook's promise was rejected. (The validators run
  before the hook; most of them are on paths an \<open>event_doc\<close> does not carry, and
  \<open>save_event\<close> starts after them.)
\<close>

definition save_event ::
  "(string \<Rightarrow> int option) \<Rightarrow> world \<Rightarrow> event_doc \<Rightarrow> (error + event_doc) \<times> world" where
  "save_event Date_parse w doc =
     (case EventSchema_pre_save Date_parse doc of
        (p, doc') \<Rightarrow>
          (case hook_failure p of
             Some e \<Rightarrow> (Inl e, w)
           | None \<Rightarrow> write_event w doc'))"

section \<open>The Booking model\<close>

text \<open>\<^verbatim>\<open>Event.exists({ _id: id })\<close>: throws when the store cannot be reached.\<close>

definition Event_exists :: "world \<Rightarrow> nat \<Rightarrow> (error + bool) \<times> world" where
  "Event_exists w0 i =
     (let w = called (Exists i) w0 in
      if db_ready w then (Inr (i \<in> set (map oid (events w))), w)
      else (Inl DependencyFailure, w))"

text \<open>
  \<^verbatim>\<open>BookingSchema.pre('save', async function (next) {...})\<close>: the argument the hook
  hands to \<^verbatim>\<open>next\<close> (\<open>None\<close> for \<^verbatim>\<open>next()\<close>). The \<^verbatim>\<open>catch\<close> block hands over the error
  of the existence query.
\<close>

definition BookingSchema_pre_save :: "world \<Rightarrow> booking_doc \<Rightarrow> error option \<times> world" where
  "BookingSchema_pre_save w this =
     (if isModified (b_modifiedPaths this) ''eventId'' then
        (case Event_exists w (eventId this) of
           (Inl e, w') \<Rightarrow> (Some e, w')
         | (Inr eventExists, w') \<Rightarrow>
             if \<not> eventExists then (Some (DanglingReference (eventId this)), w')
             else (None, w'))
      else (None, w))"

text \<open>
  Writing a Booking to the \<^verbatim>\<open>bookings\<close> collection: \<^verbatim>\<open>_id\<close> is unique, the index on
  \<^verbatim>\<open>eventId\<close> is not.
\<close>

definition b_stored :: "booking_doc \<Rightarrow> booking_doc" where
  "b_stored d = d\<lparr>b_isNew := False, b_modifiedPaths := []\<rparr>"

definition write_booking :: "world \<Rightarrow> booking_doc \<Rightarrow> (error + booking_doc) \<times> world" where
  "write_booking w0 d =
     (let w = called (WriteBooking (b_oid d)) w0 in
      if \<not> db_ready w then (Inl DependencyFailure, w)
      else if b_isNew d then
        (if b_oid d \<in> set (map b_oid (bookings w)) then (Inl DuplicateKey, w)
         else (Inr (b_stored d), w\<lparr>bookings := bookings w @ [b_stored d]\<rparr>))
      else
        (if b_oid d \<notin> set (map b_oid (bookings w)) then (Inl DocumentNotFound, w)
         else (Inr (b_stored d),
               w\<lparr>bookings := map (\<lambda>b. if b_oid b = b_oid d then b_stored d else b) (bookings w)\<rparr>)))"

text \<open>
  The validators the schema declares for a Booking. \<^verbatim>\<open>email\<close> is required (an empty
  string does not count as given) and has to pass the \<^verbatim>\<open>validator\<close> function, which
  tests it against the pattern. \<^verbatim>\<open>eventId\<close> is required as well; a \<open>booking_doc\<close> has
  one.
\<close>

definition validate_booking :: "booking_doc \<Rightarrow> error option" where
  "validate_booking this =
     (if email this = [] then Some EmailRequired
      else if \<not> emailRegex_test (email this) then Some InvalidEmail
      else None)"

text \<open>
  \<^verbatim>\<open>doc.save()\<close> on a Booking. Mongoose validates the document before it runs the
  \<^verbatim>\<open>pre('save')\<close> hooks of the schema: a document that fails a validator is refused
  with the validation error, and the hook is not run. After that, an error the hook
  hands to \<^verbatim>\<open>next\<close> ends the save.
\<close>

definition save_booking :: "world \<Rightarrow> booking_doc \<Rightarrow> (error + booking_doc) \<times> world" where
  "save_booking w doc =
     (case validate_booking doc of
        Some e \<Rightarrow> (Inl e, w)
      | None \<Rightarrow>
          (case BookingSchema_pre_save w doc of
             (Some e, w') \<Rightarrow> (Inl e, w')
           | (None, w') \<Rightarrow> write_booking w' doc))"

section \<open>The connection and the lookup route\<close>

text \<open>
  \<^verbatim>\<open>connectDB\<close>: the cached connection if there is one; otherwise, with a connection
  string, one call of \<^verbatim>\<open>mongoose.connect\<close>, whose connection is cached when it
  resolves and whose error is thrown when it does not.
\<close>

definition connectDB :: "world \<Rightarrow> (error + unit) \<times> world" where
  "connectDB w =
     (if cached_conn w then (Inr (), w)
      else (case MONGODB_URI w of
              None \<Rightarrow> (Inl MissingUri, w)
            | Some uri \<Rightarrow>
                if uri = [] then (Inl MissingUri, w)
                else (let w1 = called Connect w in
                      if store_up w1 then (Inr (), w1\<lparr>cached_conn := True\<rparr>)
                      else (Inl DependencyFailure, w1))))"

text \<open>\<^verbatim>\<open>Event.findOne({ slug: s }).lean()\<close>\<close>

definition Event_findOne :: "world \<Rightarrow> string \<Rightarrow> (error + event_doc option) \<times> world" where
  "Event_findOne w0 s =
     (let w = called (FindOne s) w0 in
      if db_ready w then (Inr (find (\<lambda>e. slug e = s) (events w)), w)
      else (Inl DependencyFailure, w))"

text \<open>
  The responses of \<^verbatim>\<open>GET /api/events/[slug]\<close> (\<open>slug_param\<close> is the \<^verbatim>\<open>slug\<close> of
  the route's parameters). The \<^verbatim>\<open>error\<close> strings of the source,
  under the specification's names:
  \<^item> \<open>MissingParameter\<close>: \<^verbatim>\<open>'Slug parameter is required'\<close>;
  \<^item> \<open>InvalidFormat\<close>:
    \<^verbatim>\<open>'Invalid slug format. Slug must be lowercase alphanumeric with hyphens only'\<close>;
  \<^item> \<open>NotFound s\<close>: \<^verbatim>\<open>`Event with slug '${normalizedSlug}' does not exist`\<close>;
  \<^item> \<open>Unexpected e\<close>: the message of the error \<open>e\<close> caught at the end of the handler.
\<close>

datatype api_error =
    MissingParameter
  | InvalidFormat
  | NotFound string
  | Unexpected error

record response =
  status :: nat
  message :: string
  error :: "api_error option"
  event :: "event_doc option"

definition GET :: "world \<Rightarrow> string \<Rightarrow> response \<times> world" where
  "GET w slug_param =
     (if slug_param = [] \<or> trim slug_param = [] then
        (\<lparr>status = 400, message = ''Validation error'',
          error = Some MissingParameter, event = None\<rparr>, w)
      else
        (let normalizedSlug = trim (toLowerCase slug_param) in
         if \<not> isValidSlug normalizedSlug then
           (\<lparr>status = 400, message = ''Validation error'',
             error = Some InvalidFormat, event = None\<rparr>, w)
         else
           (case connectDB w of
              (Inl e, w1) \<Rightarrow>
                (\<lparr>status = 500, message = ''Internal server error'',
                  error = Some (Unexpected e), event = None\<rparr>, w1)
            | (Inr u, w1) \<Rightarrow>
                (case Event_findOne w1 normalizedSlug of
                   (Inl e, w2) \<Rightarrow>
                     (\<lparr>status = 500, message = ''Internal server error'',
                       error = Some (Unexpected e), event = None\<rparr>, w2)
                 | (Inr None, w2) \<Rightarrow>
                     (\<lparr>status = 404, message = ''Not found'',
                       error = Some (NotFound normalizedSlug), event = None\<rparr>, w2)
                 | (Inr (Some ev), w2) \<Rightarrow>
                     (\<lparr>status = 200, message = ''Event fetched successfully'',
                       error = None, event = Some ev\<rparr>, w2)))))"

section \<open>Documents and worlds to run the models on\<close>

text \<open>
  \<^verbatim>\<open>new Event({ title, date, time })\<close>: a new document, every path that was given
  counts as modified, the slug is not set yet. The title passes through the setter of
  its path (\<^verbatim>\<open>trim: true\<close>).
\<close>

definition new_event :: "nat \<Rightarrow> string \<Rightarrow> string \<Rightarrow> string \<Rightarrow> event_doc" where
  "new_event i t d tm =
     \<lparr>oid = i, isNew = True, modifiedPaths = [''title'', ''date'', ''time''],
      title = trim t, slug = [], date = d, time = tm\<rparr>"

text \<open>
  \<^verbatim>\<open>new Booking({ eventId, email })\<close>: the email passes through the setters of its path
  (\<^verbatim>\<open>lowercase: true\<close>, \<^verbatim>\<open>trim: true\<close>).
\<close>

definition new_booking :: "nat \<Rightarrow> nat \<Rightarrow> string \<Rightarrow> booking_doc" where
  "new_booking i ev m =
     \<lparr>b_oid = i, b_isNew = True, b_modifiedPaths = [''eventId'', ''email''],
      eventId = ev, email = trim (toLowerCase m)\<rparr>"

text \<open>A process that is connected to a running store holding the given events.\<close>

definition connected_world :: "event_doc list \<Rightarrow> world" where
  "connected_world evs =
     \<lparr>MONGODB_URI = Some ''mongodb://localhost/dev-events'', cached_conn = True,
      store_up = True, calls = [], events = evs, bookings = []\<rparr>"

text \<open>
  The Event \<^verbatim>\<open>Tech Meetup\<close> with a date and a time, as a new document, and as the store
  keeps it once it is saved with the slug of its title.
\<close>

definition meetup :: "string \<Rightarrow> string \<Rightarrow> event_doc" where
  "meetup d tm = new_event 1 ''Tech Meetup'' d tm"

definition saved_meetup :: "string \<Rightarrow> string \<Rightarrow> event_doc" where
  "saved_meetup d tm = stored ((meetup d tm)\<lparr>slug := ''tech-meetup''\<rparr>)"

text \<open>An engine whose \<^verbatim>\<open>Date\<close> parses no string at all.\<close>

definition parses_nothing :: "string \<Rightarrow> int option" where
  "parses_nothing s = None"

section \<open>Properties the claims are stated with\<close>

text \<open>
  When the Event hook reaches one of its \<^verbatim>\<open>return new Error(...)\<close> statements: the date
  is new or changed, is not of the form \<^verbatim>\<open>YYYY-MM-DD\<close> and does not parse; the time is
  new or changed, is not a canonical \<^verbatim>\<open>HH:MM\<close>, and either does not match
  \<^verbatim>\<open>/^(\d{1,2}):(\d{2})$/\<close> or has an hour above 23 or a minute above 59.
\<close>

definition date_check_fails :: "(string \<Rightarrow> int option) \<Rightarrow> event_doc \<Rightarrow> bool" where
  "date_check_fails Date_parse this =
     (isModified (modifiedPaths this) ''date'' \<and> \<not> test_classes dateRegex (date this)
      \<and> Date_parse (date this) = None)"

definition time_check_fails :: "event_doc \<Rightarrow> bool" where
  "time_check_fails this =
     (isModified (modifiedPaths this) ''time'' \<and> \<not> timeRegex_test (time this)
      \<and> (case timeParts_match (time this) of
            None \<Rightarrow> True
          | Some (hs, ms) \<Rightarrow> parseInt hs > 23 \<or> parseInt ms > 59))"

text \<open>
  When the store accepts the write of an Event: it answers, and the document is either
  new with an identifier and a slug that no stored Event has, or the new state of a
  stored Event with a slug that no other stored Event has.
\<close>

definition write_accepted :: "world \<Rightarrow> event_doc \<Rightarrow> bool" where
  "write_accepted w d =
     (db_ready w \<and>
      (if isNew d
       then oid d \<notin> set (map oid (events w)) \<and> slug d \<notin> set (map slug (events w))
       else oid d \<in> set (map oid (events w))
            \<and> slug d \<notin> set (map slug (filter (\<lambda>e. oid e \<noteq> oid d) (events w)))))"

text \<open>
  The shape the specification promises of a derived slug, in its words: only lowercase
  alphanumerics and single hyphens, with no leading or trailing hyphen.
\<close>

fun has_double_hyphen :: "string \<Rightarrow> bool" where
  "has_double_hyphen (a # b # cs) = ((is_hyphen a \<and> is_hyphen b) \<or> has_double_hyphen (b # cs))"
| "has_double_hyphen cs = False"

definition spec_slug_shape :: "string \<Rightarrow> bool" where
  "spec_slug_shape s =
     (list_all (\<lambda>c. is_lower c \<or> is_digit c \<or> is_hyphen c) s
      \<and> \<not> has_double_hyphen s
      \<and> (case s of [] \<Rightarrow> True | c # cs \<Rightarrow> \<not> is_hyphen c)
      \<and> (case rev s of [] \<Rightarrow> True | c # cs \<Rightarrow> \<not> is_hyphen c))"

section \<open>Evaluation and frame lemmas\<close>

lemmas char_class_defs =
  is_digit_def is_lower_def is_upper_def is_hyphen_def is_word_def is_space_def is_slug_char_def

lemma db_ready_called [simp]: "db_ready (called c w) = db_ready w"
  by (simp add: db_ready_def called_def)

lemma events_called [simp]: "events (called c w) = events w"
  by (simp add: called_def)

lemma bookings_called [simp]: "bookings (called c w) = bookings w"
  by (simp add: called_def)

lemma calls_called [simp]: "calls (called c w) = calls w @ [c]"
  by (simp add: called_def)

lemmas string_defs = trim_def toLowerCase_def lower_char_def remove_outside_def slugify_def
  padStart_def parseInt_def digit_val_def digit_char_def test_classes_def dateRegex_def timeRegex_test_def
  timeParts_match_def isValidSlug_def numeral_eq_Suc

lemmas hook_defs = EventSchema_pre_save_def slug_step_def date_step_def time_step_def
  isModified_def hook_failure_def parses_nothing_def

lemmas store_defs = save_event_def write_event_def db_ready_def called_def stored_def
  new_event_def meetup_def saved_meetup_def connected_world_def

lemma slug_step_fields [simp]:
  "oid (slug_step d) = oid d" "isNew (slug_step d) = isNew d"
  "modifiedPaths (slug_step d) = modifiedPaths d" "title (slug_step d) = title d"
  "date (slug_step d) = date d" "time (slug_step d) = time d"
  by (simp_all add: slug_step_def)

lemma date_step_fields:
  assumes "date_step P d = Inr d'"
  shows "oid d' = oid d" "isNew d' = isNew d" "modifiedPaths d' = modifiedPaths d"
    "title d' = title d" "slug d' = slug d" "time d' = time d"
  using assms by (auto simp: date_step_def split: if_splits option.splits)

lemma time_step_fields:
  assumes "time_step d = Inr d'"
  shows "oid d' = oid d" "isNew d' = isNew d" "modifiedPaths d' = modifiedPaths d"
    "title d' = title d" "slug d' = slug d" "date d' = date d"
  using assms by (auto simp: time_step_def Let_def split: if_splits option.splits prod.splits)

lemma pre_save_fields:
  "oid (snd (EventSchema_pre_save P d)) = oid d"
  "isNew (snd (EventSchema_pre_save P d)) = isNew d"
  "slug (snd (EventSchema_pre_save P d)) = slug (slug_step d)"
  by (auto simp: EventSchema_pre_save_def Let_def date_step_fields time_step_fields
      split: sum.splits)

lemma pre_save_fulfilled: "\<exists>r. fst (EventSchema_pre_save P d) = Fulfilled r"
  by (auto simp: EventSchema_pre_save_def Let_def split: sum.splits)

lemma save_event_writes:
  "save_event P w d = write_event w (snd (EventSchema_pre_save P d))"
proof -
  obtain r where "fst (EventSchema_pre_save P d) = Fulfilled r"
    using pre_save_fulfilled by blast
  then show ?thesis
    by (cases "EventSchema_pre_save P d") (simp add: save_event_def hook_failure_def)
qed

lemma replace_keeps_oids:
  "map oid (map (\<lambda>e. if oid e = oid d then stored d else e) es) = map oid es"
  by (induction es) (auto simp: stored_def)

lemma replace_keeps_slugs_distinct:
  assumes "distinct (map oid es)" and "distinct (map slug es)"
    and "slug d \<notin> set (map slug (filter (\<lambda>e. oid e \<noteq> oid d) es))"
  shows "distinct (map slug (map (\<lambda>e. if oid e = oid d then stored d else e) es))"
  using assms
proof (induction es)
  case Nil
  then show ?case by simp
next
  case (Cons e es)
  show ?case
  proof (cases "oid e = oid d")
    case True
    from Cons.prems(1) have "oid e \<notin> oid ` set es" by simp
    with True have others: "\<forall>x \<in> set es. oid x \<noteq> oid d" by (metis imageI)
    then have same: "map (\<lambda>e. if oid e = oid d then stored d else e) es = es"
      by (induction es) auto
    from others have "filter (\<lambda>e. oid e \<noteq> oid d) es = es" by (induction es) auto
    with Cons.prems(3) True have "slug d \<notin> set (map slug es)" by simp
    with Cons.prems(2) True same show ?thesis by (simp add: stored_def)
  next
    case False
    from Cons.prems(3) False
    have rest: "slug d \<notin> set (map slug (filter (\<lambda>e. oid e \<noteq> oid d) es))" by simp
    from Cons.prems(1,2) have "distinct (map oid es)" and "distinct (map slug es)" by simp_all
    then have IH: "distinct (map slug (map (\<lambda>e. if oid e = oid d then stored d else e) es))"
      using rest by (rule Cons.IH)
    from Cons.prems(3) False have ne: "slug d \<noteq> slug e" by auto
    from Cons.prems(2) have "slug e \<notin> set (map slug es)" by simp
    with ne have "slug e \<notin> set (map slug (map (\<lambda>e. if oid e = oid d then stored d else e) es))"
      by (auto simp: stored_def split: if_splits)
    with IH False show ?thesis by simp
  qed
qed

lemma write_event_keeps_unique:
  assumes "distinct (map slug (events w))" and "distinct (map oid (events w))"
  shows "distinct (map slug (events (snd (write_event w d))))
       \<and> distinct (map oid (events (snd (write_event w d))))"
proof (cases "db_ready w")
  case False
  with assms show ?thesis by (simp add: write_event_def Let_def)
next
  case ready: True
  show ?thesis
  proof (cases "isNew d")
    case True
    with ready assms show ?thesis
      by (simp add: write_event_def Let_def stored_def)
  next
    case False
    show ?thesis
    proof (cases "oid d \<in> set (map oid (events w))
        \<and> slug d \<notin> set (map slug (filter (\<lambda>e. oid e \<noteq> oid d) (events w)))")
      case True
      then have "distinct (map slug (map (\<lambda>e. if oid e = oid d then stored d else e) (events w)))"
        using assms replace_keeps_slugs_distinct by blast
      with True False ready assms(2) show ?thesis
        by (simp add: write_event_def Let_def replace_keeps_oids del: map_map)
    next
      case no_write: False
      with False ready assms show ?thesis
        by (auto simp: write_event_def Let_def)
    qed
  qed
qed

lemma date_step_total:
  assumes "\<not> date_check_fails P d"
  shows "\<exists>d2. date_step P (slug_step d) = Inr d2"
proof (cases "isModified (modifiedPaths d) ''date'' \<and> \<not> test_classes dateRegex (date d)")
  case False
  then show ?thesis by (auto simp: date_step_def)
next
  case True
  with assms obtain t where "P (date d) = Some t"
    by (auto simp: date_check_fails_def)
  with True show ?thesis by (simp add: date_step_def)
qed

lemma date_fail_hook:
  assumes "date_check_fails P d"
  shows "EventSchema_pre_save P d = (Fulfilled (Some InvalidDate), slug_step d)"
  using assms
  by (simp add: date_check_fails_def EventSchema_pre_save_def Let_def date_step_def)

lemma time_fail_step:
  assumes "time_check_fails d"
  shows "time_step d = Inl InvalidTimeFormat \<or> time_step d = Inl InvalidTimeRange"
  using assms
  by (auto simp: time_check_fails_def time_step_def Let_def split: option.splits)

lemma time_check_fails_cong:
  assumes "time d' = time d" and "modifiedPaths d' = modifiedPaths d"
  shows "time_check_fails d' = time_check_fails d"
  using assms by (simp add: time_check_fails_def)

lemma time_fail_hook:
  assumes "time_check_fails d" and "\<not> date_check_fails P d"
  shows "\<exists>e d'. EventSchema_pre_save P d = (Fulfilled (Some e), d') \<and> is_InvalidTime e
           \<and> time d' = time d"
proof -
  from assms(2) obtain d2 where d2: "date_step P (slug_step d) = Inr d2"
    using date_step_total by blast
  then have "time d2 = time d" and "modifiedPaths d2 = modifiedPaths d"
    by (simp_all add: date_step_fields)
  with assms(1) have "time_check_fails d2" by (simp add: time_check_fails_def)
  then have "time_step d2 = Inl InvalidTimeFormat \<or> time_step d2 = Inl InvalidTimeRange"
    by (rule time_fail_step)
  with d2 \<open>time d2 = time d\<close> show ?thesis
    by (auto simp: EventSchema_pre_save_def Let_def is_InvalidTime_def)
qed

subsection \<open>Accepted writes\<close>

lemma write_event_accepts_iff:
  "(\<exists>r. fst (write_event w d) = Inr r) = write_accepted w d"
  by (simp add: write_event_def write_accepted_def Let_def)

lemma replaced_is_stored:
  assumes "oid d \<in> set (map oid es)"
  shows "stored d \<in> set (map (\<lambda>e. if oid e = oid d then stored d else e) es)"
  using assms by (induction es) auto

lemma write_event_accepted:
  assumes "write_accepted w d"
  shows "fst (write_event w d) = Inr (stored d)
       \<and> stored d \<in> set (events (snd (write_event w d)))"
proof (cases "isNew d")
  case True
  with assms show ?thesis by (simp add: write_event_def write_accepted_def Let_def)
next
  case False
  with assms have "oid d \<in> set (map oid (events w))" by (simp add: write_accepted_def)
  then have "stored d \<in> set (map (\<lambda>e. if oid e = oid d then stored d else e) (events w))"
    by (rule replaced_is_stored)
  with assms False show ?thesis by (simp add: write_event_def write_accepted_def Let_def)
qed

lemma stored_fields [simp]:
  "date (stored d) = date d" "time (stored d) = time d" "slug (stored d) = slug d"
  "title (stored d) = title d" "oid (stored d) = oid d"
  by (simp_all add: stored_def)

subsection \<open>Digits, and what the time block does to a well-formed time\<close>

lemma digit_cases:
  assumes "is_digit c"
  obtains "c = CHR ''0''" | "c = CHR ''1''" | "c = CHR ''2''" | "c = CHR ''3''" | "c = CHR ''4''"
    | "c = CHR ''5''" | "c = CHR ''6''" | "c = CHR ''7''" | "c = CHR ''8''" | "c = CHR ''9''"
  using assms by (auto simp: is_digit_def)

lemma digit_val_lt: "is_digit c \<Longrightarrow> digit_val c < 10"
  by (erule digit_cases) (simp_all add: digit_val_def)

lemma digit_char_val: "is_digit c \<Longrightarrow> digit_char (digit_val c) = c"
  by (erule digit_cases) (simp_all add: digit_val_def digit_char_def)

lemma digit_le5: "is_digit c \<Longrightarrow> digit_val c \<le> 5 \<Longrightarrow> c \<in> set ''012345''"
  by (erule digit_cases) (simp_all add: digit_val_def)

lemma digit_le3: "is_digit c \<Longrightarrow> digit_val c \<le> 3 \<Longrightarrow> c \<in> set ''0123''"
  by (erule digit_cases) (simp_all add: digit_val_def)

lemma digit_le1: "is_digit c \<Longrightarrow> digit_val c \<le> 1 \<Longrightarrow> c \<in> set ''01''"
  by (erule digit_cases) (simp_all add: digit_val_def)

lemma digit_is2: "is_digit c \<Longrightarrow> digit_val c = 2 \<Longrightarrow> c = CHR ''2''"
  by (erule digit_cases) (simp_all add: digit_val_def)

lemma parseInt1: "parseInt [a] = digit_val a"
  by (simp add: parseInt_def)

lemma parseInt2: "parseInt [a, b] = 10 * digit_val a + digit_val b"
  by (simp add: parseInt_def)

lemma toString_lt10: "n < 10 \<Longrightarrow> toString n = [digit_char n]"
  by (subst toString.simps) simp

lemma toString_lt100:
  assumes "10 \<le> n" and "n < 100"
  shows "toString n = [digit_char (n div 10), digit_char (n mod 10)]"
proof -
  from assms have "n div 10 < 10" by simp
  then have "toString (n div 10) = [digit_char (n div 10)]" by (rule toString_lt10)
  with assms show ?thesis by (subst toString.simps) simp
qed

lemma toString_one_digit:
  assumes "is_digit a"
  shows "padStart 2 (CHR ''0'') (toString (digit_val a)) = [CHR ''0'', a]"
  using assms by (simp add: padStart_def toString_lt10 digit_val_lt digit_char_val
      del: toString.simps)

lemma toString_two_digits:
  assumes "is_digit a" and "is_digit b"
  shows "padStart 2 (CHR ''0'') (toString (10 * digit_val a + digit_val b)) = [a, b]"
proof (cases "digit_val a = 0")
  case True
  with assms(1) have "a = CHR ''0''"
    using digit_char_val [of a] by (simp add: digit_char_def)
  with assms(2) True show ?thesis
    using toString_one_digit [of b] by (simp del: toString.simps)
next
  case False
  from assms have lt: "digit_val a < 10" "digit_val b < 10" by (simp_all add: digit_val_lt)
  with False have "(10 * digit_val a + digit_val b) div 10 = digit_val a"
    and "(10 * digit_val a + digit_val b) mod 10 = digit_val b"
    and "10 \<le> 10 * digit_val a + digit_val b" and "10 * digit_val a + digit_val b < 100"
    by simp_all
  with assms show ?thesis
    by (simp add: padStart_def toString_lt100 digit_char_val del: toString.simps)
qed

lemma time_step_pads:
  assumes modified: "isModified (modifiedPaths this) ''time''"
    and shape: "time this = hs @ '':'' @ [m1, m2]" "hs = [h] \<or> hs = [h1, h2]"
    and digits: "list_all is_digit hs" "is_digit m1" "is_digit m2"
    and range: "parseInt hs \<le> 23" "parseInt [m1, m2] \<le> 59"
  shows "time_step this = Inr (this\<lparr>time := padStart 2 (CHR ''0'') hs @ '':'' @ [m1, m2]\<rparr>)"
proof -
  from shape(2) show ?thesis
  proof
    assume hs: "hs = [h]"
    with digits have h: "is_digit h" by simp
    from hs shape have t: "time this = [h, CHR '':'', m1, m2]" by simp
    then have "\<not> timeRegex_test (time this)" by (simp add: timeRegex_test_def)
    moreover from t h digits have "timeParts_match (time this) = Some ([h], [m1, m2])"
      by (simp add: timeParts_match_def)
    moreover from h have "\<not> 23 < digit_val h" using digit_val_lt [of h] by simp
    moreover from range(2) have "\<not> 59 < 10 * digit_val m1 + digit_val m2"
      by (simp add: parseInt2)
    ultimately show ?thesis
      using modified hs h digits
      by (simp add: time_step_def Let_def parseInt1 parseInt2 toString_one_digit
          toString_two_digits padStart_def [of 2 _ "[h]"] del: toString.simps)
  next
    assume hs: "hs = [h1, h2]"
    with digits have h: "is_digit h1" "is_digit h2" by simp_all
    from hs shape have t: "time this = [h1, h2, CHR '':'', m1, m2]" by simp
    from range hs have r: "10 * digit_val h1 + digit_val h2 \<le> 23"
      "10 * digit_val m1 + digit_val m2 \<le> 59" by (simp_all add: parseInt2)
    from r(2) have "digit_val m1 \<le> 5" by simp
    with digits have m: "m1 \<in> set ''012345''" by (simp only: digit_le5)
    from r(1) have "digit_val h1 \<le> 1 \<or> (digit_val h1 = 2 \<and> digit_val h2 \<le> 3)"
      by arith
    with h have hh: "h1 \<in> set ''01'' \<or> (h1 = CHR ''2'' \<and> h2 \<in> set ''0123'')"
      using digit_le1 digit_is2 digit_le3 by blast
    have "timeRegex_test [h1, h2, CHR '':'', m1, m2]"
      unfolding timeRegex_test_def list.case using m hh h digits by blast
    with modified hs t show ?thesis
      by (simp add: time_step_def padStart_def)
  qed
qed

subsection \<open>What the date block does to a date that parses\<close>

lemma date_step_reformats:
  assumes "isModified (modifiedPaths this) ''date''"
    and "\<not> test_classes dateRegex (date this)"
    and "Date_parse (date this) = Some t"
  shows "date_step Date_parse this = Inr (this\<lparr>date := split_T_first (toISOString t)\<rparr>)"
  using assms by (simp add: date_step_def)

text \<open>
  The date is the UTC date of the time value: midnight of 5 January 2025 in UTC stays
  the 5th, midnight of the same day two hours east of UTC is still the 4th in UTC.
\<close>

lemma toISOString_date_examples:
  "split_T_first (toISOString 1736035200000) = ''2025-01-05''"
  "split_T_first (toISOString 1736028000000) = ''2025-01-04''"
  by code_simp+

subsection \<open>What every derived slug has\<close>

lemma lower_char_not_upper: "\<not> is_upper (lower_char c)"
  by (auto simp: lower_char_def is_upper_def split: option.splits if_splits)

lemma lower_char_id: "\<not> is_upper c \<Longrightarrow> lower_char c = c"
  by (simp add: lower_char_def is_upper_def)

lemma replace_runs_set:
  "c \<in> set (replace_runs X s) \<Longrightarrow> (c \<in> set s \<and> \<not> X c) \<or> c = CHR ''-''"
proof (induction X s rule: replace_runs.induct)
  case (1 X)
  then show ?case by simp
next
  case (2 X d ds)
  then show ?case by (auto split: if_splits dest: set_dropWhileD)
qed

lemma trim_set: "c \<in> set (trim s) \<Longrightarrow> c \<in> set s"
  by (auto simp: trim_def dest!: set_dropWhileD)

lemma trim_without_space:
  assumes "\<forall>c \<in> set s. \<not> is_space c"
  shows "trim s = s"
proof -
  from assms have "dropWhile is_space s = s" by (cases s) simp_all
  moreover from assms have "dropWhile is_space (rev s) = rev s" by (cases "rev s") auto
  ultimately show ?thesis by (simp add: trim_def)
qed

lemma slugify_chars:
  assumes "c \<in> set (slugify t)"
  shows "\<not> is_space c \<and> \<not> is_upper c"
proof -
  let ?kept = "remove_outside (\<lambda>c. is_word c \<or> is_space c \<or> is_hyphen c) (toLowerCase t)"
  from assms have "c \<in> set (replace_runs is_hyphen (replace_runs is_space ?kept))"
    by (simp add: slugify_def trim_set)
  then have "c \<in> set (replace_runs is_space ?kept) \<or> c = CHR ''-''"
    using replace_runs_set by blast
  then have "(c \<in> set ?kept \<and> \<not> is_space c) \<or> c = CHR ''-''"
    using replace_runs_set by blast
  moreover have "\<not> is_upper d" if "d \<in> set ?kept" for d
    using that by (auto simp: remove_outside_def toLowerCase_def lower_char_not_upper)
  moreover have "\<not> is_space (CHR ''-'')" and "\<not> is_upper (CHR ''-'')"
    by (simp_all add: is_space_def is_upper_def)
  ultimately show ?thesis by blast
qed

lemma slug_setters_identity: "trim (toLowerCase (slugify t)) = slugify t"
proof -
  have "toLowerCase (slugify t) = slugify t"
    unfolding toLowerCase_def by (rule map_idI) (simp add: slugify_chars lower_char_id)
  moreover have "trim (slugify t) = slugify t"
    by (rule trim_without_space) (simp add: slugify_chars)
  ultimately show ?thesis by simp
qed

section \<open>The claims\<close>

subsection \<open>C1: a Booking whose Event does not exist is not written\<close>

text \<open>
  C1, as amended. For every Booking whose \<^verbatim>\<open>eventId\<close> is new or changed and is the
  identifier of no stored Event, saving fails and writes no Booking. The error is the
  validation error when the document fails a validator of the schema (the existence
  query is not made then); for a document that passes them it is \<open>DanglingReference\<close>
  when the existence query answers and \<open>DependencyFailure\<close> when the query itself
  fails, and the existence query is the only operation sent to the store.
\<close>

theorem booking_dangling_reference:
  assumes "isModified (b_modifiedPaths doc) ''eventId''"
      and "eventId doc \<notin> set (map oid (events w))"
  shows "fst (save_booking w doc) =
           Inl (case validate_booking doc of
                  Some e \<Rightarrow> e
                | None \<Rightarrow>
                    if db_ready w then DanglingReference (eventId doc) else DependencyFailure)
         \<and> bookings (snd (save_booking w doc)) = bookings w
         \<and> calls (snd (save_booking w doc)) =
             (case validate_booking doc of
                Some e \<Rightarrow> calls w
              | None \<Rightarrow> calls w @ [Exists (eventId doc)])"
proof (cases "validate_booking doc")
  case None
  with assms show ?thesis
    by (simp add: save_booking_def BookingSchema_pre_save_def Event_exists_def Let_def)
next
  case (Some e)
  then show ?thesis by (simp add: save_booking_def)
qed

text \<open>
  A new Booking for Event 7 with the email \<^verbatim>\<open>Ada@Example.org\<close>, saved while the store
  holds no Event: the email is held as \<^verbatim>\<open>ada@example.org\<close> and passes the validators,
  the save ends with \<open>DanglingReference 7\<close>, and no Booking is stored.
\<close>

theorem booking_dangling_reference_witness:
  "isModified (b_modifiedPaths (new_booking 1 7 ''Ada@Example.org'')) ''eventId''
   \<and> 7 \<notin> set (map oid (events (connected_world [])))
   \<and> email (new_booking 1 7 ''Ada@Example.org'') = ''ada@example.org''
   \<and> validate_booking (new_booking 1 7 ''Ada@Example.org'') = None
   \<and> fst (save_booking (connected_world []) (new_booking 1 7 ''Ada@Example.org''))
       = Inl (DanglingReference 7)
   \<and> bookings (snd (save_booking (connected_world []) (new_booking 1 7 ''Ada@Example.org''))) = []
   \<and> calls (snd (save_booking (connected_world []) (new_booking 1 7 ''Ada@Example.org'')))
       = [Exists 7]"
  using booking_dangling_reference [of "new_booking 1 7 ''Ada@Example.org''" "connected_world []"]
  by (simp add: new_booking_def connected_world_def isModified_def db_ready_def
      validate_booking_def emailRegex_test_def email_char_def string_defs char_class_defs)

text \<open>
  C1 as it was stated fails. A new Booking for Event 7 with the email
  \<^verbatim>\<open>not-an-email\<close>, saved while the store holds no Event, ends with \<open>InvalidEmail\<close>, not
  with \<open>DanglingReference\<close>, and no existence query is made. And a Booking with a good
  email, saved while the store does not answer, ends with \<open>DependencyFailure\<close>.
\<close>

theorem booking_invalid_email_not_dangling:
  "isModified (b_modifiedPaths (new_booking 1 7 ''not-an-email'')) ''eventId''
   \<and> 7 \<notin> set (map oid (events (connected_world [])))
   \<and> fst (save_booking (connected_world []) (new_booking 1 7 ''not-an-email''))
       = Inl InvalidEmail
   \<and> fst (save_booking (connected_world []) (new_booking 1 7 ''not-an-email''))
       \<noteq> Inl (DanglingReference 7)
   \<and> calls (snd (save_booking (connected_world []) (new_booking 1 7 ''not-an-email''))) = []
   \<and> bookings (snd (save_booking (connected_world []) (new_booking 1 7 ''not-an-email''))) = []
   \<and> fst (save_booking ((connected_world [])\<lparr>store_up := False\<rparr>)
              (new_booking 1 7 ''Ada@Example.org'')) = Inl DependencyFailure"
  by (simp add: save_booking_def BookingSchema_pre_save_def Event_exists_def Let_def
      called_def new_booking_def connected_world_def isModified_def db_ready_def
      validate_booking_def emailRegex_test_def email_char_def string_defs char_class_defs)

subsection \<open>C2: the shape of a derived slug\<close>

text \<open>
  C2 says that the slug of every non-empty, trimmed title has only lowercase
  alphanumerics and single hyphens and no hyphen at either end. The code at two such
  titles: \<^verbatim>\<open>Hello World !\<close> gets the slug \<^verbatim>\<open>hello-world-\<close>, which ends in a hyphen (the
  final \<^verbatim>\<open>trim()\<close> removes white space, and none is left by then), and \<^verbatim>\<open>my_event\<close>
  keeps its underscore (\<^verbatim>\<open>\w\<close> contains it). Neither slug has the promised shape, and
  the lookup route's \<^verbatim>\<open>isValidSlug\<close> refuses both.
\<close>

theorem slug_of_title_ending_in_symbol:
  "slug (snd (EventSchema_pre_save parses_nothing
              (new_event 1 ''Hello World !'' ''2025-01-05'' ''18:30''))) = ''hello-world-''
   \<and> \<not> spec_slug_shape ''hello-world-'' \<and> \<not> isValidSlug ''hello-world-''
   \<and> slugify ''my_event'' = ''my_event''
   \<and> \<not> spec_slug_shape ''my_event'' \<and> \<not> isValidSlug ''my_event''"
  by (simp add: spec_slug_shape_def hook_defs store_defs string_defs char_class_defs)

subsection \<open>C3: a date that does not parse\<close>

text \<open>
  C3 says that saving an Event whose new date is neither \<^verbatim>\<open>YYYY-MM-DD\<close> nor parseable
  fails with \<open>InvalidDate\<close>. The code at the date \<^verbatim>\<open>not a date\<close>, which no engine parses:
  the hook returns the error as a value, the save goes on and the store holds the Event
  with the date \<^verbatim>\<open>not a date\<close>.
\<close>

theorem unparseable_date_is_saved:
  "save_event parses_nothing (connected_world []) (meetup ''not a date'' ''18:30'')
   = (Inr (saved_meetup ''not a date'' ''18:30''),
      (connected_world [saved_meetup ''not a date'' ''18:30''])
        \<lparr>calls := [WriteEvent 1]\<rparr>)
   \<and> map date (events (snd (save_event parses_nothing (connected_world [])
                                (meetup ''not a date'' ''18:30'')))) = [''not a date'']"
  by (simp add: hook_defs store_defs string_defs char_class_defs)

subsection \<open>C4: the times \<^verbatim>\<open>9:5\<close> and \<^verbatim>\<open>25:00\<close>\<close>

text \<open>
  C4, as amended. For a document whose time is new or changed, the time block does not
  normalize \<^verbatim>\<open>9:5\<close>: its minute has one digit, it matches neither the canonical pattern
  nor \<^verbatim>\<open>/^(\d{1,2}):(\d{2})$/\<close>, and the block ends with the \<open>InvalidTime\<close> error of the
  format. It is \<^verbatim>\<open>9:05\<close> that becomes \<^verbatim>\<open>09:05\<close>. For \<^verbatim>\<open>25:00\<close> the block ends with the
  \<open>InvalidTime\<close> error of the range.
\<close>

theorem time_block_examples:
  assumes "isModified (modifiedPaths this) ''time''"
  shows "time_step (this\<lparr>time := ''9:5''\<rparr>) = Inl InvalidTimeFormat
       \<and> time_step (this\<lparr>time := ''9:05''\<rparr>) = Inr (this\<lparr>time := ''09:05''\<rparr>)
       \<and> time_step (this\<lparr>time := ''25:00''\<rparr>) = Inl InvalidTimeRange"
  using assms by (simp add: time_step_def string_defs char_class_defs)

text \<open>The three times on a new Event.\<close>

theorem time_block_examples_witness:
  "isModified (modifiedPaths (meetup ''2025-01-05'' ''9:5'')) ''time''
   \<and> time_step (meetup ''2025-01-05'' ''9:5'') = Inl InvalidTimeFormat
   \<and> time_step (meetup ''2025-01-05'' ''9:05'') = Inr (meetup ''2025-01-05'' ''09:05'')
   \<and> time_step (meetup ''2025-01-05'' ''25:00'') = Inl InvalidTimeRange"
  using time_block_examples [of "meetup ''2025-01-05'' ''9:5''"]
  by (simp add: meetup_def new_event_def isModified_def)

text \<open>
  C4 as it was stated fails: the hook leaves the time \<^verbatim>\<open>9:5\<close> of a new Event as it is,
  and does not make it \<^verbatim>\<open>09:05\<close>.
\<close>

theorem time_9_5_not_padded:
  "time (snd (EventSchema_pre_save parses_nothing (meetup ''2025-01-05'' ''9:5''))) = ''9:5''
   \<and> time (snd (EventSchema_pre_save parses_nothing (meetup ''2025-01-05'' ''9:5''))) \<noteq> ''09:05''
   \<and> fst (EventSchema_pre_save parses_nothing (meetup ''2025-01-05'' ''9:5''))
       = Fulfilled (Some InvalidTimeFormat)"
  by (simp add: hook_defs store_defs string_defs char_class_defs)

subsection \<open>C5: times out of range\<close>

text \<open>
  C5 says that validation fails for a time \<^verbatim>\<open>H:MM\<close> or \<^verbatim>\<open>HH:MM\<close> with an hour above 23
  or a minute above 59. The code at the time \<^verbatim>\<open>25:00\<close>: the hook returns the error as a
  value, the save goes on and the store holds the Event with the time \<^verbatim>\<open>25:00\<close>.
\<close>

theorem out_of_range_time_is_saved:
  "save_event parses_nothing (connected_world []) (meetup ''2025-01-05'' ''25:00'')
   = (Inr (saved_meetup ''2025-01-05'' ''25:00''),
      (connected_world [saved_meetup ''2025-01-05'' ''25:00''])
        \<lparr>calls := [WriteEvent 1]\<rparr>)
   \<and> map time (events (snd (save_event parses_nothing (connected_world [])
                                (meetup ''2025-01-05'' ''25:00'')))) = [''25:00'']"
  by (simp add: hook_defs store_defs string_defs char_class_defs)

subsection \<open>C6: the raw slug \<^verbatim>\<open>Tech Meetup!\<close>\<close>

text \<open>
  C6, as amended. The lookup route lowercases and trims the raw slug \<^verbatim>\<open>Tech Meetup!\<close>
  to \<^verbatim>\<open>tech meetup!\<close>, which is not of the slug format: the answer is 400 with
  \<open>InvalidFormat\<close>, whatever the store holds, and the store is not touched.
\<close>

theorem GET_tech_meetup_rejected:
  "GET w ''Tech Meetup!'' =
     (\<lparr>status = 400, message = ''Validation error'', error = Some InvalidFormat,
       event = None\<rparr>, w)"
  by (simp add: GET_def string_defs char_class_defs)

text \<open>
  C6 as it was stated fails: the normalized slug is not \<^verbatim>\<open>tech-meetup\<close>, and with an
  Event of that slug in the store the answer is still 400 and no query is made.
\<close>

theorem GET_tech_meetup_not_looked_up:
  "trim (toLowerCase ''Tech Meetup!'') \<noteq> ''tech-meetup''
   \<and> status (fst (GET (connected_world
         [saved_meetup ''2025-01-05'' ''18:30'']) ''Tech Meetup!'')) = 400
   \<and> calls (snd (GET (connected_world
         [saved_meetup ''2025-01-05'' ''18:30'']) ''Tech Meetup!'')) = []"
  by (simp add: GET_def connected_world_def string_defs char_class_defs)

subsection \<open>C7: slugs of the wrong format\<close>

text \<open>
  C7, as amended. For every raw slug that is not empty and not white space only, and
  whose lowercased and trimmed form is not of the slug format, the lookup answers 400
  with \<open>InvalidFormat\<close> and leaves the world as it was: no connection is opened and no
  query is made.
\<close>

theorem GET_invalid_format:
  assumes "trim s \<noteq> []" and "\<not> isValidSlug (trim (toLowerCase s))"
  shows "GET w s =
     (\<lparr>status = 400, message = ''Validation error'', error = Some InvalidFormat,
       event = None\<rparr>, w)"
proof -
  from assms(1) have "s \<noteq> []" by (auto simp: trim_def)
  with assms show ?thesis by (simp add: GET_def)
qed

text \<open>The raw slug \<^verbatim>\<open>UPPER_CASE\<close>: its underscore survives the lowercasing.\<close>

theorem GET_invalid_format_witness:
  "trim ''UPPER_CASE'' \<noteq> [] \<and> \<not> isValidSlug (trim (toLowerCase ''UPPER_CASE''))
   \<and> GET (connected_world []) ''UPPER_CASE'' =
       (\<lparr>status = 400, message = ''Validation error'', error = Some InvalidFormat,
         event = None\<rparr>, connected_world [])"
  using GET_invalid_format [of "''UPPER_CASE''" "connected_world []"]
  by (simp add: string_defs char_class_defs)

text \<open>
  C7 as it was stated fails: a slug of one space is not empty and its trimmed form is
  not of the slug format, but the answer is \<open>MissingParameter\<close>, not \<open>InvalidFormat\<close>.
\<close>

theorem GET_blank_slug_is_missing_parameter:
  "'' '' \<noteq> [] \<and> \<not> isValidSlug (trim (toLowerCase '' ''))
   \<and> error (fst (GET (connected_world []) '' '')) = Some MissingParameter
   \<and> error (fst (GET (connected_world []) '' '')) \<noteq> Some InvalidFormat"
  by (simp add: GET_def string_defs char_class_defs)

subsection \<open>C8: slugs are unique in the store\<close>

text \<open>
  C8. Saving an Event keeps the slugs (and the identifiers) of the stored Events
  pairwise different; and saving a new Event whose title derives the slug of a stored
  Event, while the store answers, fails with \<open>DuplicateKey\<close> and leaves the stored Events
  as they were.
\<close>

theorem slug_unique:
  assumes "distinct (map slug (events w))" and "distinct (map oid (events w))"
  shows "distinct (map slug (events (snd (save_event Date_parse w doc))))
       \<and> distinct (map oid (events (snd (save_event Date_parse w doc))))
       \<and> (isNew doc \<and> isModified (modifiedPaths doc) ''title'' \<and> db_ready w
            \<and> slugify (title doc) \<in> set (map slug (events w))
          \<longrightarrow> fst (save_event Date_parse w doc) = Inl DuplicateKey
              \<and> events (snd (save_event Date_parse w doc)) = events w)"
proof -
  have "isNew doc \<and> isModified (modifiedPaths doc) ''title'' \<and> db_ready w
            \<and> slugify (title doc) \<in> set (map slug (events w))
          \<longrightarrow> fst (save_event Date_parse w doc) = Inl DuplicateKey
              \<and> events (snd (save_event Date_parse w doc)) = events w"
    by (auto simp: save_event_writes write_event_def Let_def pre_save_fields slug_step_def)
  with write_event_keeps_unique [OF assms] show ?thesis
    by (simp add: save_event_writes)
qed

text \<open>
  The store holds the Event \<^verbatim>\<open>Tech Meetup\<close> with the slug \<^verbatim>\<open>tech-meetup\<close>; a new Event
  \<^verbatim>\<open>Tech Meetup!\<close> derives the same slug and is refused.
\<close>

theorem slug_unique_witness:
  "distinct (map slug (events (connected_world [saved_meetup ''2025-01-05'' ''18:30''])))
   \<and> distinct (map oid (events (connected_world [saved_meetup ''2025-01-05'' ''18:30''])))
   \<and> isNew (new_event 2 ''Tech Meetup!'' ''2025-02-01'' ''09:00'')
   \<and> isModified (modifiedPaths (new_event 2 ''Tech Meetup!'' ''2025-02-01'' ''09:00'')) ''title''
   \<and> db_ready (connected_world [saved_meetup ''2025-01-05'' ''18:30''])
   \<and> slug (saved_meetup ''2025-01-05'' ''18:30'') = ''tech-meetup''
   \<and> slugify ''Tech Meetup!'' = ''tech-meetup''
   \<and> fst (save_event parses_nothing
         (connected_world [saved_meetup ''2025-01-05'' ''18:30''])
         (new_event 2 ''Tech Meetup!'' ''2025-02-01'' ''09:00'')) = Inl DuplicateKey
   \<and> events (snd (save_event parses_nothing
         (connected_world [saved_meetup ''2025-01-05'' ''18:30''])
         (new_event 2 ''Tech Meetup!'' ''2025-02-01'' ''09:00'')))
       = [saved_meetup ''2025-01-05'' ''18:30'']"
  using slug_unique
    [of "connected_world [saved_meetup ''2025-01-05'' ''18:30'']"
        parses_nothing "new_event 2 ''Tech Meetup!'' ''2025-02-01'' ''09:00''"]
  by (simp add: store_defs isModified_def string_defs char_class_defs)

subsection \<open>C9: the error the Event hook returns is dropped\<close>

text \<open>
  C9. When the date or the time of an Event fails its check in the hook, the hook's
  promise is fulfilled with the error (nothing is thrown, nothing is handed to the
  chain), the failing field is left as it was given, and the save goes on to the write
  of that document; whenever the store accepts the write, the save succeeds and the
  stored document holds the failing date, or the failing time, as it was given.
\<close>

theorem event_hook_error_dropped:
  assumes "date_check_fails Date_parse doc \<or> time_check_fails doc"
  shows "\<exists>e doc'. EventSchema_pre_save Date_parse doc = (Fulfilled (Some e), doc')
           \<and> (if date_check_fails Date_parse doc then e = InvalidDate else is_InvalidTime e)
           \<and> (date_check_fails Date_parse doc \<longrightarrow> date doc' = date doc)
           \<and> (time_check_fails doc \<longrightarrow> time doc' = time doc)
           \<and> save_event Date_parse w doc = write_event w doc'
           \<and> (write_accepted w doc' \<longrightarrow>
                 fst (save_event Date_parse w doc) = Inr (stored doc')
                 \<and> stored doc' \<in> set (events (snd (save_event Date_parse w doc)))
                 \<and> (date_check_fails Date_parse doc \<longrightarrow> date (stored doc') = date doc)
                 \<and> (time_check_fails doc \<longrightarrow> time (stored doc') = time doc))"
proof -
  have "\<exists>e doc'. EventSchema_pre_save Date_parse doc = (Fulfilled (Some e), doc')
           \<and> (if date_check_fails Date_parse doc then e = InvalidDate else is_InvalidTime e)
           \<and> (date_check_fails Date_parse doc \<longrightarrow> date doc' = date doc)
           \<and> (time_check_fails doc \<longrightarrow> time doc' = time doc)"
  proof (cases "date_check_fails Date_parse doc")
    case True
    then have "EventSchema_pre_save Date_parse doc = (Fulfilled (Some InvalidDate), slug_step doc)"
      by (rule date_fail_hook)
    with True show ?thesis by simp
  next
    case False
    with assms have "time_check_fails doc" by simp
    with False show ?thesis using time_fail_hook by fastforce
  qed
  then obtain e doc' where hook: "EventSchema_pre_save Date_parse doc = (Fulfilled (Some e), doc')"
    and rest: "if date_check_fails Date_parse doc then e = InvalidDate else is_InvalidTime e"
      "date_check_fails Date_parse doc \<longrightarrow> date doc' = date doc"
      "time_check_fails doc \<longrightarrow> time doc' = time doc"
    by blast
  from hook have save: "save_event Date_parse w doc = write_event w doc'"
    by (simp add: save_event_writes)
  with hook rest write_event_accepted [of w doc'] show ?thesis by simp
qed

text \<open>
  A new Event with the date \<^verbatim>\<open>not a date\<close> and the time \<^verbatim>\<open>25:00\<close>: the store holds
  one Event afterwards, with the date \<^verbatim>\<open>not a date\<close> and the time \<^verbatim>\<open>25:00\<close>.
\<close>

theorem event_hook_error_dropped_witness:
  "date_check_fails parses_nothing (meetup ''not a date'' ''25:00'')
   \<and> time_check_fails (meetup ''not a date'' ''25:00'')
   \<and> EventSchema_pre_save parses_nothing (meetup ''not a date'' ''25:00'')
       = (Fulfilled (Some InvalidDate),
          (meetup ''not a date'' ''25:00'')\<lparr>slug := ''tech-meetup''\<rparr>)
   \<and> write_accepted (connected_world [])
         ((meetup ''not a date'' ''25:00'')\<lparr>slug := ''tech-meetup''\<rparr>)
   \<and> save_event parses_nothing (connected_world []) (meetup ''not a date'' ''25:00'')
       = (Inr (saved_meetup ''not a date'' ''25:00''),
          (connected_world
             [saved_meetup ''not a date'' ''25:00''])
            \<lparr>calls := [WriteEvent 1]\<rparr>)
   \<and> map date (events (snd (save_event parses_nothing (connected_world [])
                                (meetup ''not a date'' ''25:00'')))) = [''not a date'']
   \<and> map time (events (snd (save_event parses_nothing (connected_world [])
                                (meetup ''not a date'' ''25:00'')))) = [''25:00'']"
  using event_hook_error_dropped
    [of parses_nothing "meetup ''not a date'' ''25:00''" "connected_world []"]
  by (simp add: date_check_fails_def time_check_fails_def write_accepted_def hook_defs
      store_defs string_defs char_class_defs)

subsection \<open>C10: a date of the form \<^verbatim>\<open>YYYY-MM-DD\<close> is kept as it is\<close>

text \<open>
  C10. Every date that matches \<^verbatim>\<open>/^\d{4}-\d{2}-\d{2}$/\<close> passes the date block unchanged,
  whatever calendar date it names or fails to name: the hook does not end with
  \<open>InvalidDate\<close>, the document leaves it with the same date, and that document is what the
  save writes.
\<close>

theorem canonical_date_kept:
  assumes "test_classes dateRegex (date doc)"
  shows "\<exists>p doc'. EventSchema_pre_save Date_parse doc = (p, doc')
           \<and> p \<noteq> Fulfilled (Some InvalidDate) \<and> date doc' = date doc
           \<and> save_event Date_parse w doc = write_event w doc'
           \<and> (write_accepted w doc' \<longrightarrow>
                 fst (save_event Date_parse w doc) = Inr (stored doc')
                 \<and> stored doc' \<in> set (events (snd (save_event Date_parse w doc)))
                 \<and> date (stored doc') = date doc)"
proof -
  from assms have d: "date_step Date_parse (slug_step doc) = Inr (slug_step doc)"
    by (simp add: date_step_def)
  have "\<exists>p doc'. EventSchema_pre_save Date_parse doc = (p, doc')
           \<and> p \<noteq> Fulfilled (Some InvalidDate) \<and> date doc' = date doc"
  proof (cases "time_step (slug_step doc)")
    case (Inl e)
    then have "e \<noteq> InvalidDate"
      by (auto simp: time_step_def Let_def split: if_splits option.splits prod.splits)
    with d Inl show ?thesis by (simp add: EventSchema_pre_save_def Let_def)
  next
    case (Inr d3)
    then have "date d3 = date doc" by (simp add: time_step_fields)
    with d Inr show ?thesis by (simp add: EventSchema_pre_save_def Let_def)
  qed
  then obtain p doc' where hook: "EventSchema_pre_save Date_parse doc = (p, doc')"
    and rest: "p \<noteq> Fulfilled (Some InvalidDate)" "date doc' = date doc"
    by blast
  from hook have "save_event Date_parse w doc = write_event w doc'"
    by (simp add: save_event_writes)
  with hook rest write_event_accepted [of w doc'] show ?thesis by simp
qed

text \<open>The date \<^verbatim>\<open>2025-13-99\<close> matches the pattern, and a new Event is stored with it.\<close>

theorem canonical_date_kept_witness:
  "test_classes dateRegex (date (meetup ''2025-13-99'' ''18:30''))
   \<and> write_accepted (connected_world [])
         ((meetup ''2025-13-99'' ''18:30'')\<lparr>slug := ''tech-meetup''\<rparr>)
   \<and> save_event parses_nothing (connected_world []) (meetup ''2025-13-99'' ''18:30'')
       = (Inr (saved_meetup ''2025-13-99'' ''18:30''),
          (connected_world
             [saved_meetup ''2025-13-99'' ''18:30''])
            \<lparr>calls := [WriteEvent 1]\<rparr>)"
  using canonical_date_kept
    [of "meetup ''2025-13-99'' ''18:30''" parses_nothing "connected_world []"]
  by (simp add: write_accepted_def hook_defs store_defs string_defs char_class_defs)

end
